theory Spec2Isabelle
  imports Complex_Main
begin

section \<open>Arrays and floating-point values\<close>

text \<open>
  The model of \<^verbatim>\<open>src/eleanor/targetdata.py\<close>. A finite float is idealised as a
  \<^typ>\<open>real\<close>: rounding and overflow are outside the model. In the model of the
  object's methods pixel values are finite, and the two non-finite values that
  the control flow can then meet are kept: NaN (numpy's mean of an empty array
  and its root of a negative number) and the \<^verbatim>\<open>np.inf\<close> that \<^verbatim>\<open>jitter_corr\<close>
  stores. Pixels and scores that are infinite or NaN are the subject of a
  second model of the selection path, further below.

  A 2-D array is the list of its rows, a 1-D array a list. The elementwise
  product of two arrays is taken position by position; it is numpy's product
  for arrays of one shape, which is what the program builds (every mask is
  rasterised to the shape of \<^verbatim>\<open>tpf[0]\<close>), and the theorems below assume it.
\<close>

type_synonym image = "real list list"
type_synonym series = "real list"

datatype nfloat = Val real | NaN

datatype error =
    IndexError | ValueError | NameError | AttributeError | TypeError | UnboundLocalError
  | NoValidApertureError | InvalidApertureParametersError | UnsupportedShapeError

text \<open>
  The first six errors are the Python exceptions the source can raise. The last
  three are the error kinds of the specification; no path of the source raises
  them, and they are here so that this can be stated.
\<close>

datatype outcome = Returned | Raised error

definition has_shape :: "nat \<Rightarrow> nat \<Rightarrow> image \<Rightarrow> bool" where
  "has_shape h w a = (length a = h \<and> list_all (\<lambda>row. length row = w) a)"

definition np_shape :: "image \<Rightarrow> nat \<times> nat" where
  "np_shape a = (length a, case a of [] \<Rightarrow> 0 | row # _ \<Rightarrow> length row)"

definition np_sum :: "image \<Rightarrow> real" where
  "np_sum a = sum_list (map sum_list a)"

definition img_mul :: "image \<Rightarrow> image \<Rightarrow> image" where
  "img_mul a b = map2 (map2 (*)) a b"

definition img_sq :: "image \<Rightarrow> image" where
  "img_sq a = map (map (\<lambda>x. x ^ 2)) a"

definition np_sqrt :: "real \<Rightarrow> nfloat" where
  "np_sqrt x = (if x < 0 then NaN else Val (sqrt x))"

definition np_mean :: "series \<Rightarrow> nfloat" where
  "np_mean xs = (if xs = [] then NaN else Val (sum_list xs / real (length xs)))"

text \<open>\<^verbatim>\<open>np.std\<close> with its default \<^verbatim>\<open>ddof=0\<close>: the root of the mean of the
  squared absolute deviations from the mean.\<close>

definition np_std :: "series \<Rightarrow> nfloat" where
  "np_std xs =
     (case np_mean xs of
        NaN \<Rightarrow> NaN
      | Val m \<Rightarrow>
          (case np_mean (map (\<lambda>x. \<bar>x - m\<bar> ^ 2) xs) of
             NaN \<Rightarrow> NaN
           | Val v \<Rightarrow> np_sqrt v))"

text \<open>\<^verbatim>\<open>np.min\<close> raises on an empty sequence and returns NaN as soon as one
  element is NaN.\<close>

fun fmin :: "nfloat \<Rightarrow> nfloat \<Rightarrow> nfloat" where
  "fmin (Val a) (Val b) = Val (min a b)"
| "fmin _ _ = NaN"

definition np_min :: "nfloat list \<Rightarrow> error + nfloat" where
  "np_min xs = (case xs of [] \<Rightarrow> Inl ValueError | x # rest \<Rightarrow> Inr (fold fmin rest x))"

text \<open>Float equality: NaN equals nothing, itself included.\<close>

fun feq :: "nfloat \<Rightarrow> nfloat \<Rightarrow> bool" where
  "feq (Val a) (Val b) = (a = b)"
| "feq _ _ = False"

text \<open>\<^verbatim>\<open>np.where(stds == m)[0]\<close>: the indices, in increasing order, at which
  the comparison holds.\<close>

definition np_where_eq :: "nfloat list \<Rightarrow> nfloat \<Rightarrow> nat list" where
  "np_where_eq xs m = filter (\<lambda>i. feq (xs ! i) m) [0..<length xs]"

section \<open>The object's state\<close>

text \<open>
  The attribute \<^verbatim>\<open>custom_aperture\<close> of an instance is the bound method until
  the method is first called; the method then rebinds the attribute to
  \<^verbatim>\<open>None\<close> or to a mask.
\<close>

datatype custom_attr = BoundMethod | PyNone | Mask image

text \<open>
  \<^verbatim>\<open>lc\<close>, \<^verbatim>\<open>lc_err\<close>, \<^verbatim>\<open>centroid_x\<close> and \<^verbatim>\<open>centroid_y\<close> are \<open>None\<close> while the
  attribute has never been assigned (reading it raises AttributeError); for the
  other optional fields \<open>None\<close> is Python's \<^verbatim>\<open>None\<close>. \<^verbatim>\<open>stdout\<close> holds the lines
  printed so far.
\<close>

record target_data =
  tpf :: "image list"
  tpf_err :: "image list"
  all_apertures :: "image list"
  all_lc :: "series list option"
  all_lc_err :: "nfloat list list option"
  lc :: "series option"
  lc_err :: "nfloat list option"
  flux :: "series option"
  flux_err :: "series option"
  aperture :: "image option"
  custom_aperture_attr :: custom_attr
  centroid_x :: "series option"
  centroid_y :: "series option"
  stdout :: "string list"

section \<open>Light-curve extraction\<close>

text \<open>Lines 176 and 177: the two values stored for one aperture and one cadence.\<close>

definition lc_err_entry :: "image \<Rightarrow> image \<Rightarrow> nfloat" where
  "lc_err_entry err_frame ap = np_sqrt (np_sum (img_mul (img_sq err_frame) ap))"

definition lc_entry :: "image \<Rightarrow> image \<Rightarrow> real" where
  "lc_entry frame ap = np_sum (img_mul frame ap)"

text \<open>The inner loop over the cadences, for one aperture. \<^verbatim>\<open>tpf_err[cad]\<close> is
  read first and raises when the error sequence is too short.\<close>

fun cad_loop :: "image list \<Rightarrow> image list \<Rightarrow> image \<Rightarrow> nat list \<Rightarrow> error + (nfloat list \<times> series)" where
  "cad_loop frames errs ap [] = Inr ([], [])"
| "cad_loop frames errs ap (cad # cads) =
     (if cad < length errs then
        (let e = lc_err_entry (errs ! cad) ap;
             f = lc_entry (frames ! cad) ap
         in case cad_loop frames errs ap cads of
              Inl ex \<Rightarrow> Inl ex
            | Inr (es, fs) \<Rightarrow> Inr (e # es, f # fs))
      else Inl IndexError)"

text \<open>The outer loop over the apertures: the rows of \<^verbatim>\<open>all_lc_err\<close> and
  \<^verbatim>\<open>all_lc\<close>, and the list \<^verbatim>\<open>stds\<close>.\<close>

fun ap_loop :: "image list \<Rightarrow> image list \<Rightarrow> image list \<Rightarrow>
    error + (nfloat list list \<times> series list \<times> nfloat list)" where
  "ap_loop frames errs [] = Inr ([], [], [])"
| "ap_loop frames errs (ap # aps) =
     (case cad_loop frames errs ap [0..<length frames] of
        Inl ex \<Rightarrow> Inl ex
      | Inr (es, fs) \<Rightarrow>
          (case ap_loop frames errs aps of
             Inl ex \<Rightarrow> Inl ex
           | Inr (E, F, stds) \<Rightarrow> Inr (es # E, fs # F, np_std fs # stds)))"

text \<open>The local names of the custom-mask branch. Nothing in the function binds
  \<^verbatim>\<open>lc_err\<close> or \<^verbatim>\<open>mask\<close>.\<close>

record locals =
  l_lc :: "series option"
  l_lc_err :: "series option"
  l_mask :: "image option"

definition mul_custom :: "image \<Rightarrow> custom_attr \<Rightarrow> error + image" where
  "mul_custom frame ca =
     (case ca of Mask m \<Rightarrow> Inr (img_mul frame m) | _ \<Rightarrow> Inl TypeError)"

fun custom_loop :: "custom_attr \<Rightarrow> image list \<Rightarrow> image list \<Rightarrow> nat list \<Rightarrow> locals \<Rightarrow> error + locals" where
  "custom_loop ca frames errs [] L = Inr L"
| "custom_loop ca frames errs (cad # cads) L =
     (case mul_custom (frames ! cad) ca of
        Inl ex \<Rightarrow> Inl ex
      | Inr p \<Rightarrow>
          (case l_lc L of
             None \<Rightarrow> Inl NameError
           | Some arr \<Rightarrow>
               (let L1 = L\<lparr>l_lc := Some (arr[cad := np_sum p])\<rparr>
                in if cad < length errs then
                     (case mul_custom (errs ! cad) ca of
                        Inl ex \<Rightarrow> Inl ex
                      | Inr q \<Rightarrow>
                          (case l_lc_err L1 of
                             None \<Rightarrow> Inl NameError
                           | Some earr \<Rightarrow>
                               custom_loop ca frames errs cads
                                 (L1\<lparr>l_lc_err := Some (earr[cad := np_sum q])\<rparr>)))
                   else Inl IndexError)))"

definition no_custom_msg :: string where
  "no_custom_msg = ''You have not defined a custom aperture. You can do this by calling the function .custom_aperture''"

definition get_lightcurve :: "bool \<Rightarrow> target_data \<Rightarrow> outcome \<times> target_data" where
  "get_lightcurve custom_mask self0 =
     (let self = self0\<lparr>flux := None, flux_err := None, aperture := None\<rparr> in
      if \<not> custom_mask then
        (let self1 = self\<lparr>all_lc := None, all_lc_err := None\<rparr> in
         case ap_loop (tpf self1) (tpf_err self1) (all_apertures self1) of
           Inl ex \<Rightarrow> (Raised ex, self1)
         | Inr (E, F, stds) \<Rightarrow>
             (let self2 = self1\<lparr>all_lc := Some F, all_lc_err := Some E\<rparr> in
              case np_min stds of
                Inl ex \<Rightarrow> (Raised ex, self2)
              | Inr m \<Rightarrow>
                  (case np_where_eq stds m of
                     [] \<Rightarrow> (Raised IndexError, self2)
                   | best_ind # _ \<Rightarrow>
                       (Returned,
                        self2\<lparr>lc := Some (F ! best_ind),
                              aperture := Some (all_apertures self2 ! best_ind),
                              lc_err := Some (E ! best_ind)\<rparr>))))
      else
        (case custom_aperture_attr self of
           PyNone \<Rightarrow> (Returned, self\<lparr>stdout := stdout self @ [no_custom_msg]\<rparr>)
         | ca \<Rightarrow>
             (case custom_loop ca (tpf self) (tpf_err self) [0..<length (tpf self)]
                     \<lparr>l_lc = Some (replicate (length (tpf self)) 0), l_lc_err = None, l_mask = None\<rparr> of
                Inl ex \<Rightarrow> (Raised ex, self)
              | Inr L \<Rightarrow>
                  (case l_lc L of
                     None \<Rightarrow> (Raised NameError, self)
                   | Some arr \<Rightarrow>
                       (let self1 = self\<lparr>flux := Some arr\<rparr> in
                        case l_lc_err L of
                          None \<Rightarrow> (Raised NameError, self1)
                        | Some earr \<Rightarrow>
                            (let self2 = self1\<lparr>flux_err := Some earr\<rparr> in
                             case l_mask L of
                               None \<Rightarrow> (Raised NameError, self2)
                             | Some mk \<Rightarrow> (Returned, self2\<lparr>aperture := Some mk\<rparr>)))))))"

text \<open>The specification's uncertainty for one cadence: the root of the sum of
  the squared error times the squared mask weight.\<close>

definition spec_flux_error :: "image \<Rightarrow> image \<Rightarrow> nfloat" where
  "spec_flux_error err_frame ap = np_sqrt (np_sum (img_mul (img_sq err_frame) (img_sq ap)))"

section \<open>The aperture catalogue\<close>

text \<open>
  The apertures and their rasterisation come from the photutils library, which
  is not part of the repository. An aperture is the constructor call the source
  makes, and \<^verbatim>\<open>ap.to_mask(method=m)[0].to_image(shape=sh)\<close> is a function handed to
  the model, assumed to return an array.
\<close>

datatype aperture_shape =
    CircularAperture "real \<times> real" real
  | RectangularAperture "real \<times> real" real real real

type_synonym rasteriser = "aperture_shape \<Rightarrow> string \<Rightarrow> nat \<times> nat \<Rightarrow> image"

text \<open>\<^verbatim>\<open>np.arange(start, stop, step)\<close>: \<open>\<lceil>(stop - start) / step\<rceil>\<close> values
  \<open>start + i * step\<close>.\<close>

definition np_arange :: "real \<Rightarrow> real \<Rightarrow> real \<Rightarrow> real list" where
  "np_arange start stop step =
     map (\<lambda>i. start + real i * step) [0..<nat \<lceil>(stop - start) / step\<rceil>]"

definition r_list :: "real list" where
  "r_list = np_arange 1.5 4 0.5"

text \<open>The loop over the two methods, for one radius; \<^verbatim>\<open>self.tpf[0]\<close> raises on
  an empty cutout sequence. The list is \<^verbatim>\<open>self.all_apertures\<close> as appended to
  so far.\<close>

fun method_loop :: "rasteriser \<Rightarrow> image list \<Rightarrow> aperture_shape \<Rightarrow> aperture_shape \<Rightarrow>
    string list \<Rightarrow> image list \<Rightarrow> outcome \<times> image list" where
  "method_loop rast frames ap_circ ap_rect [] aps = (Returned, aps)"
| "method_loop rast frames ap_circ ap_rect (method # methods) aps =
     (case frames of
        [] \<Rightarrow> (Raised IndexError, aps)
      | frame0 # _ \<Rightarrow>
          (let circ_mask = rast ap_circ method (np_shape frame0);
               rect_mask = rast ap_rect method (np_shape frame0)
           in method_loop rast frames ap_circ ap_rect methods (aps @ [circ_mask] @ [rect_mask])))"

fun r_loop :: "rasteriser \<Rightarrow> image list \<Rightarrow> real list \<Rightarrow> image list \<Rightarrow> outcome \<times> image list" where
  "r_loop rast frames [] aps = (Returned, aps)"
| "r_loop rast frames (r # rs) aps =
     (let ap_circ = CircularAperture (4, 4) r;
          ap_rect = RectangularAperture (4, 4) r r 0
      in case method_loop rast frames ap_circ ap_rect [''center'', ''exact''] aps of
           (Raised ex, aps1) \<Rightarrow> (Raised ex, aps1)
         | (Returned, aps1) \<Rightarrow> r_loop rast frames rs aps1)"

text \<open>The method \<^verbatim>\<open>create_apertures\<close>. Its assignment to \<^verbatim>\<open>self.all_aperture\<close>,
  an attribute nothing reads, is left out; the lists \<^verbatim>\<open>circles\<close> and
  \<^verbatim>\<open>rectangles\<close> are local and unused.\<close>

definition create_apertures :: "rasteriser \<Rightarrow> target_data \<Rightarrow> outcome \<times> target_data" where
  "create_apertures rast self0 =
     (let self = self0\<lparr>all_lc := None\<rparr>;
          (res, aps) = r_loop rast (tpf self) r_list []
      in (res, self\<lparr>all_apertures := aps\<rparr>))"

section \<open>The custom aperture\<close>

text \<open>\<^verbatim>\<open>str.lower\<close> on ASCII text.\<close>

definition lower_char :: "char \<Rightarrow> char" where
  "lower_char c =
     (let n = (of_char c :: nat) in if 65 \<le> n \<and> n \<le> 90 then char_of (n + 32) else c)"

definition str_lower :: "string \<Rightarrow> string" where
  "str_lower s = map lower_char s"

definition radius_msg :: string where
  "radius_msg = ''Please set a radius (in pixels) for your aperture''"

definition rectangle_msg :: string where
  "rectangle_msg = ''For a rectangular aperture, please set both length and width: custom_aperture(shape='' @ [CHR 0x27] @ ''rectangle'' @ [CHR 0x27] @ '', l=#, w=#)''"

definition shape_msg :: string where
  "shape_msg = ''Aperture shape not recognized. Please set shape == '' @ [CHR 0x27] @ ''circle'' @ [CHR 0x27] @ '' or '' @ [CHR 0x27] @ ''rectangle'' @ [CHR 0x27]"

text \<open>The method \<^verbatim>\<open>custom_aperture\<close>; \<open>shape\<close> is \<open>None\<close> for Python's default
  \<^verbatim>\<open>shape=None\<close>, on which \<^verbatim>\<open>.lower()\<close> raises.\<close>

definition custom_aperture :: "rasteriser \<Rightarrow> string option \<Rightarrow> real \<Rightarrow> real \<Rightarrow> real \<Rightarrow> real \<Rightarrow>
    real \<times> real \<Rightarrow> string \<Rightarrow> target_data \<Rightarrow> outcome \<times> target_data" where
  "custom_aperture rast shape r l w theta pos method self0 =
     (let self = self0\<lparr>custom_aperture_attr := PyNone\<rparr> in
      case shape of
        None \<Rightarrow> (Raised AttributeError, self)
      | Some sh \<Rightarrow>
          (let shape1 = str_lower sh in
           if shape1 = ''circle'' then
             (if r = 0 then (Returned, self\<lparr>stdout := stdout self @ [radius_msg]\<rparr>)
              else
                (case tpf self of
                   [] \<Rightarrow> (Raised IndexError, self)
                 | frame0 # _ \<Rightarrow>
                     (Returned,
                      self\<lparr>custom_aperture_attr :=
                             Mask (rast (CircularAperture pos r) method (np_shape frame0))\<rparr>)))
           else if shape1 = ''rectangle'' then
             (if l = 0 \<or> w = 0 then (Returned, self\<lparr>stdout := stdout self @ [rectangle_msg]\<rparr>)
              else
                (case tpf self of
                   [] \<Rightarrow> (Raised IndexError, self)
                 | frame0 # _ \<Rightarrow>
                     (Returned,
                      self\<lparr>custom_aperture_attr :=
                             Mask (rast (RectangularAperture pos l w theta) method (np_shape frame0))\<rparr>)))
           else (Returned, self\<lparr>stdout := stdout self @ [shape_msg]\<rparr>)))"

section \<open>Systematics correction\<close>

text \<open>
  The optimiser (\<^verbatim>\<open>scipy.optimize.minimize\<close>) and the roll correction
  (\<^verbatim>\<open>lightkurve.SFFCorrector.correct\<close>) are library functions handed to the model.
  The optimiser takes the objective, the initial guess and the bounds and
  returns the solution \<^verbatim>\<open>test.x\<close>; a coefficient vector is a 5-tuple.
\<close>

type_synonym params = "real \<times> real \<times> real \<times> real \<times> real"
type_synonym minimizer = "(params \<Rightarrow> real) \<Rightarrow> params \<Rightarrow> (real \<times> real) list \<Rightarrow> params"
type_synonym sff_corrector = "series \<Rightarrow> series \<Rightarrow> series \<Rightarrow> series \<Rightarrow> nat \<Rightarrow> nat \<Rightarrow> nat \<Rightarrow> series"

text \<open>An entry of \<^verbatim>\<open>y_err\<close> is finite or \<^verbatim>\<open>np.inf\<close>; a finite value divided by
  infinity is zero. (No entry of \<^verbatim>\<open>y_err\<close> is ever zero.)\<close>

datatype efloat = Fin real | PInf

definition ediv :: "real \<Rightarrow> efloat \<Rightarrow> real" where
  "ediv v e = (case e of Fin d \<Rightarrow> v / d | PInf \<Rightarrow> 0)"

text \<open>The objective \<^verbatim>\<open>parabola\<close> (lines 247 to 250).\<close>

definition parabola :: "params \<Rightarrow> series \<Rightarrow> series \<Rightarrow> series \<Rightarrow> efloat list \<Rightarrow> real" where
  "parabola params x y f_obs y_err =
     (case params of (c1, c2, c3, c4, c5) \<Rightarrow>
        (let f_corr = map (\<lambda>(f, xv, yv).
                        f * (c1 + c2 * (xv - 2.5) + c3 * (xv - 2.5) ^ 2
                                + c4 * (yv - 2.5) + c5 * (yv - 2.5) ^ 2))
                      (zip f_obs (zip x y))
         in sum_list (map (\<lambda>(fc, e). (ediv (1 - fc) e) ^ 2) (zip f_corr y_err))))"

text \<open>NaN-propagating subtraction and scaling, and the comparison \<open>x \<le> t\<close>,
  which is false when \<open>t\<close> is NaN.\<close>

fun fsub :: "nfloat \<Rightarrow> nfloat \<Rightarrow> nfloat" where
  "fsub (Val a) (Val b) = Val (a - b)"
| "fsub _ _ = NaN"

fun fscale :: "real \<Rightarrow> nfloat \<Rightarrow> nfloat" where
  "fscale c (Val a) = Val (c * a)"
| "fscale c NaN = NaN"

fun fle :: "real \<Rightarrow> nfloat \<Rightarrow> bool" where
  "fle x (Val t) = (x \<le> t)"
| "fle x NaN = False"

definition np_where_le :: "series \<Rightarrow> nfloat \<Rightarrow> nat list" where
  "np_where_le xs t = filter (\<lambda>i. fle (xs ! i) t) [0..<length xs]"

text \<open>\<^verbatim>\<open>lc[mask]\<close>: the values at which the mask is true.\<close>

definition bool_index :: "series \<Rightarrow> bool list \<Rightarrow> series" where
  "bool_index xs msk = map fst (filter snd (zip xs msk))"

text \<open>\<^verbatim>\<open>np.ones(n) ** e\<close>; \<open>1.0 ** e\<close> is \<open>1.0\<close> also when \<open>e\<close> is NaN.\<close>

definition np_ones_pow :: "nat \<Rightarrow> nfloat \<Rightarrow> efloat list" where
  "np_ones_pow n e = replicate n (Fin (case e of Val s \<Rightarrow> 1 powr s | NaN \<Rightarrow> 1))"

text \<open>What one round hands to the optimiser and gets back. The trace of these
  records is kept beside the loop's variables so that the rounds can be spoken
  about; the program itself keeps only \<^verbatim>\<open>mask\<close>, \<^verbatim>\<open>test\<close> and \<^verbatim>\<open>lc_new\<close>.\<close>

record round_log =
  r_init :: params
  r_bounds :: "(real \<times> real) list"
  r_y_err :: "efloat list"
  r_x :: params

record jstate =
  j_mask :: "bool list"
  j_test :: "params option"
  j_lc_new :: series
  j_trace :: "round_log list"

text \<open>One round of the loop (lines 255 to 272). \<^verbatim>\<open>inds\<close> is a one-element tuple
  that holds the index array, so the inner \<^verbatim>\<open>for j in inds\<close> runs once and stores
  at all those indices. \<^verbatim>\<open>y_err\<close> is built anew in every round, and \<^verbatim>\<open>lc\<close> is
  not reassigned inside the loop. Reading \<^verbatim>\<open>test\<close> before its first assignment
  would raise UnboundLocalError.\<close>

definition jitter_round :: "minimizer \<Rightarrow> series \<Rightarrow> series \<Rightarrow> series \<Rightarrow> nat \<Rightarrow> jstate \<Rightarrow> error + jstate" where
  "jitter_round mini x_pos y_pos lcv i st =
     (let std_mask = np_std (bool_index lcv (j_mask st));
          inds = np_where_le lcv (fsub (np_mean lcv) (fscale 2.5 std_mask));
          y_err0 = np_ones_pow (length lcv) (np_std lcv);
          y_err = fold (\<lambda>j ys. ys[j := PInf]) inds y_err0;
          msk = fold (\<lambda>j ms. ms[j := False]) inds (j_mask st)
      in case (if i = 0 then Inr (3, 3, 3, 3, 3)
               else (case j_test st of None \<Rightarrow> Inl UnboundLocalError | Some x \<Rightarrow> Inr x)) of
           Inl ex \<Rightarrow> Inl ex
         | Inr initGuess \<Rightarrow>
             (let bnds = [(-15, 15), (-15, 15), (-15, 15), (-15, 15), (-15, 15)];
                  x = mini (\<lambda>p. parabola p x_pos y_pos lcv y_err) initGuess bnds
              in case x of (c1, c2, c3, c4, c5) \<Rightarrow>
                   Inr \<lparr>j_mask = msk, j_test = Some x,
                        j_lc_new = map (\<lambda>(f, xv, yv).
                                     f * (c1 + c2 * (xv - 2.5) + c3 * (xv - 2.5) ^ 2
                                             + c4 * (yv - 2.5) + c5 * (yv - 2.5) ^ 2))
                                   (zip lcv (zip x_pos y_pos)),
                        j_trace = j_trace st @
                          [\<lparr>r_init = initGuess, r_bounds = bnds, r_y_err = y_err, r_x = x\<rparr>]\<rparr>))"

fun jitter_loop :: "minimizer \<Rightarrow> series \<Rightarrow> series \<Rightarrow> series \<Rightarrow> nat list \<Rightarrow> jstate \<Rightarrow> error + jstate" where
  "jitter_loop mini x_pos y_pos lcv [] st = Inr st"
| "jitter_loop mini x_pos y_pos lcv (i # rest) st =
     (case jitter_round mini x_pos y_pos lcv i st of
        Inl ex \<Rightarrow> Inl ex
      | Inr st1 \<Rightarrow> jitter_loop mini x_pos y_pos lcv rest st1)"

definition jitter_init :: "series \<Rightarrow> jstate" where
  "jitter_init lcv = \<lparr>j_mask = replicate (length lcv) True, j_test = None, j_lc_new = [], j_trace = []\<rparr>"

text \<open>The loop of \<^verbatim>\<open>jitter_corr\<close> on given arrays, and the method itself, which
  reads \<^verbatim>\<open>self.centroid_x\<close>, \<^verbatim>\<open>self.centroid_y\<close> and \<^verbatim>\<open>self.lc\<close> first. (The
  class assigns \<^verbatim>\<open>centroid_xs\<close> and \<^verbatim>\<open>centroid_ys\<close>; \<^verbatim>\<open>centroid_x\<close> and
  \<^verbatim>\<open>centroid_y\<close> exist only once the caller has set them.)\<close>

definition jitter_run :: "minimizer \<Rightarrow> series \<Rightarrow> series \<Rightarrow> series \<Rightarrow> error + jstate" where
  "jitter_run mini x_pos y_pos lcv = jitter_loop mini x_pos y_pos lcv [0..<5] (jitter_init lcv)"

definition jitter_corr :: "minimizer \<Rightarrow> target_data \<Rightarrow> outcome \<times> target_data" where
  "jitter_corr mini self =
     (case centroid_x self of
        None \<Rightarrow> (Raised AttributeError, self)
      | Some x_pos \<Rightarrow>
          (case centroid_y self of
             None \<Rightarrow> (Raised AttributeError, self)
           | Some y_pos \<Rightarrow>
               (case lc self of
                  None \<Rightarrow> (Raised AttributeError, self)
                | Some lcv \<Rightarrow>
                    (case jitter_run mini x_pos y_pos lcv of
                       Inl ex \<Rightarrow> (Raised ex, self)
                     | Inr st \<Rightarrow> (Returned, self\<lparr>lc := Some (j_lc_new st)\<rparr>)))))"

definition rotation_corr :: "sff_corrector \<Rightarrow> target_data \<Rightarrow> outcome \<times> target_data" where
  "rotation_corr sff self =
     (case lc self of
        None \<Rightarrow> (Raised AttributeError, self)
      | Some lcv \<Rightarrow>
          (let time = map real [0..<length lcv] in
           case centroid_x self of
             None \<Rightarrow> (Raised AttributeError, self)
           | Some x_pos \<Rightarrow>
               (case centroid_y self of
                  None \<Rightarrow> (Raised AttributeError, self)
                | Some y_pos \<Rightarrow>
                    (Returned, self\<lparr>lc := Some (sff time lcv x_pos y_pos 1 1 5)\<rparr>))))"

definition system_corr :: "minimizer \<Rightarrow> sff_corrector \<Rightarrow> bool \<Rightarrow> bool \<Rightarrow> target_data \<Rightarrow> outcome \<times> target_data" where
  "system_corr mini sff jitter roll self =
     (case (if jitter then jitter_corr mini self else (Returned, self)) of
        (Raised ex, self1) \<Rightarrow> (Raised ex, self1)
      | (Returned, self1) \<Rightarrow>
          (if roll then rotation_corr sff self1 else (Returned, self1)))"

text \<open>The correction factor as the specification writes it, with the centring
  constants \<open>x0\<close> and \<open>y0\<close> as parameters.\<close>

definition spec_factor :: "real \<Rightarrow> real \<Rightarrow> params \<Rightarrow> real \<Rightarrow> real \<Rightarrow> real" where
  "spec_factor x0 y0 params x y =
     (case params of (c1, c2, c3, c4, c5) \<Rightarrow>
        c1 + c2 * (x - x0) + c3 * (x - x0) ^ 2 + c4 * (y - y0) + c5 * (y - y0) ^ 2)"

section \<open>Terms of the statements\<close>

text \<open>The flux time series of one aperture (a row of \<^verbatim>\<open>all_lc\<close>), the mean, and
  the standard deviation that divides by the number of values.\<close>

definition flux_series :: "image list \<Rightarrow> image \<Rightarrow> series" where
  "flux_series frames ap = map (\<lambda>frame. lc_entry frame ap) frames"

definition mean :: "series \<Rightarrow> real" where
  "mean xs = sum_list xs / real (length xs)"

definition std_dev :: "series \<Rightarrow> real" where
  "std_dev xs = sqrt ((\<Sum>x\<leftarrow>xs. (x - mean xs) ^ 2) / real (length xs))"

text \<open>The sample standard deviation, which divides by one less than the number
  of values (numpy's \<^verbatim>\<open>ddof=1\<close>; NaN for fewer than two values).\<close>

definition sample_std :: "series \<Rightarrow> nfloat" where
  "sample_std xs =
     (if length xs < 2 then NaN
      else Val (sqrt ((\<Sum>x\<leftarrow>xs. (x - mean xs) ^ 2) / (real (length xs) - 1))))"

section \<open>Example states\<close>

text \<open>Two cadences of one pixel and three apertures; the second and the third
  aperture both give a constant flux series.\<close>

definition ex_state :: target_data where
  "ex_state = \<lparr>tpf = [[[1]], [[3]]], tpf_err = [[[0]], [[0]]],
     all_apertures = [[[1]], [[0]], [[0]]],
     all_lc = None, all_lc_err = None, lc = None, lc_err = None,
     flux = None, flux_err = None, aperture = None,
     custom_aperture_attr = BoundMethod, centroid_x = None, centroid_y = None, stdout = []\<rparr>"


definition ex_custom :: target_data where
  "ex_custom = ex_state\<lparr>custom_aperture_attr := Mask [[1]]\<rparr>"

text \<open>A stand-in rasteriser for the examples: every pixel of the requested shape
  gets weight 1 under \<^verbatim>\<open>center\<close> and 1/2 under any other method.\<close>

definition ex_rast :: rasteriser where
  "ex_rast ap method sh = replicate (fst sh) (replicate (snd sh) (if method = ''center'' then 1 else 1 / 2))"

text \<open>The specification's rule for excluding a cadence in a round: both the mean
  and the standard deviation are taken over the included values.\<close>

definition spec_excluded :: "series \<Rightarrow> bool list \<Rightarrow> nat \<Rightarrow> bool" where
  "spec_excluded lcv msk k =
     fle (lcv ! k) (fsub (np_mean (bool_index lcv msk)) (fscale 2.5 (np_std (bool_index lcv msk))))"

text \<open>
  A light curve of nine zeros and one low value, with the centroid at rest at
  (2.5, 2.5); an optimiser that returns its initial guess, one that returns a
  fixed solution, and a roll correction that halves the flux. \<open>ex_st1\<close> and
  \<open>ex_st2\<close> are the loop's variables after the first and the second round of
  \<^verbatim>\<open>jitter_corr\<close> on this input.
\<close>

definition bnds15 :: "(real \<times> real) list" where
  "bnds15 = [(-15, 15), (-15, 15), (-15, 15), (-15, 15), (-15, 15)]"

definition ex_lc :: series where
  "ex_lc = [0, 0, 0, 0, 0, 0, 0, 0, 0, -10]"

definition ex_pos :: series where
  "ex_pos = [5 / 2, 5 / 2, 5 / 2, 5 / 2, 5 / 2, 5 / 2, 5 / 2, 5 / 2, 5 / 2, 5 / 2]"

definition ex_mini :: minimizer where
  "ex_mini obj init bnds = init"

definition ex_const :: minimizer where
  "ex_const obj init bnds = (0, 1, 0, 0, 0)"

definition ex_sff :: sff_corrector where
  "ex_sff time fl x y niters windows polyorder = map (\<lambda>v. v / 2) fl"

definition ex_mask1 :: "bool list" where
  "ex_mask1 = [True, True, True, True, True, True, True, True, True, False]"

definition ex_y_err1 :: "efloat list" where
  "ex_y_err1 = [Fin 1, Fin 1, Fin 1, Fin 1, Fin 1, Fin 1, Fin 1, Fin 1, Fin 1, PInf]"

definition ex_st1 :: jstate where
  "ex_st1 = \<lparr>j_mask = ex_mask1, j_test = Some (3, 3, 3, 3, 3),
     j_lc_new = [0, 0, 0, 0, 0, 0, 0, 0, 0, -30],
     j_trace = [\<lparr>r_init = (3, 3, 3, 3, 3), r_bounds = bnds15, r_y_err = ex_y_err1, r_x = (3, 3, 3, 3, 3)\<rparr>]\<rparr>"

definition ex_st2 :: jstate where
  "ex_st2 = ex_st1\<lparr>j_trace := j_trace ex_st1 @ j_trace ex_st1\<rparr>"

definition ex_jit :: target_data where
  "ex_jit = ex_state\<lparr>lc := Some ex_lc, centroid_x := Some ex_pos, centroid_y := Some ex_pos\<rparr>"

section \<open>Non-finite values on the selection path\<close>

text \<open>
  A second model of lines 170 to 182, the computation of the scores and the
  choice of \<^verbatim>\<open>best_ind\<close>, over values that may be infinite or NaN. The
  arithmetic is IEEE's on these values, still without rounding and overflow:
  NaN absorbs, \<open>\<infinity> - \<infinity>\<close> and \<open>0 * \<infinity>\<close> are NaN, \<^verbatim>\<open>np.min\<close> returns NaN when
  one element is NaN, and NaN equals nothing. A sum over such values does not
  depend on the order of summation. On finite values this model and the one
  above agree (lemmas \<open>x_ap_loop_emb\<close> and \<open>best_ind_of_nfloat\<close>).
\<close>

datatype xfloat = Finite real | PosInf | NegInf | NotANumber









fun xmin :: "xfloat \<Rightarrow> xfloat \<Rightarrow> xfloat" where
  "xmin NotANumber _ = NotANumber"
| "xmin _ NotANumber = NotANumber"
| "xmin NegInf _ = NegInf"
| "xmin _ NegInf = NegInf"
| "xmin PosInf b = b"
| "xmin a PosInf = a"
| "xmin (Finite a) (Finite b) = Finite (min a b)"

fun xeq :: "xfloat \<Rightarrow> xfloat \<Rightarrow> bool" where
  "xeq (Finite a) (Finite b) = (a = b)"
| "xeq PosInf PosInf = True"
| "xeq NegInf NegInf = True"
| "xeq _ _ = False"











text \<open>Line 182, \<^verbatim>\<open>np.where(stds == np.min(stds))[0][0]\<close>, as a function of the
  scores.\<close>

definition x_np_min :: "xfloat list \<Rightarrow> error + xfloat" where
  "x_np_min xs = (case xs of [] \<Rightarrow> Inl ValueError | x # rest \<Rightarrow> Inr (fold xmin rest x))"

definition x_np_where_eq :: "xfloat list \<Rightarrow> xfloat \<Rightarrow> nat list" where
  "x_np_where_eq xs m = filter (\<lambda>i. xeq (xs ! i) m) [0..<length xs]"

definition best_ind :: "xfloat list \<Rightarrow> error + nat" where
  "best_ind stds =
     (case x_np_min stds of
        Inl ex \<Rightarrow> Inl ex
      | Inr m \<Rightarrow>
          (case x_np_where_eq stds m of
             [] \<Rightarrow> Inl IndexError
           | k # _ \<Rightarrow> Inr k))"








section \<open>Properties of the array operations\<close>

lemma sum_list_map2_nth:
  "length xs = n \<Longrightarrow> length ys = n \<Longrightarrow>
   sum_list (map2 f xs ys) = (\<Sum>j<n. f (xs ! j) (ys ! j))"
proof (induction xs arbitrary: ys n)
  case Nil
  then show ?case by simp
next
  case (Cons x xs)
  then obtain y ys' where ys: "ys = y # ys'" by (cases ys) auto
  from Cons.prems ys obtain k where n: "n = Suc k" by (cases n) auto
  have "sum_list (map2 f xs ys') = (\<Sum>j<k. f (xs ! j) (ys' ! j))"
    using Cons.IH [of k ys'] Cons.prems ys n by simp
  then show ?case
    by (simp add: ys n sum.lessThan_Suc_shift del: sum.lessThan_Suc)
qed

lemma np_sum_img_mul:
  assumes "has_shape h w a" and "has_shape h w b"
  shows "np_sum (img_mul a b) = (\<Sum>i<h. \<Sum>j<w. a ! i ! j * b ! i ! j)"
proof -
  have la: "length a = h" and lb: "length b = h"
    using assms by (simp_all add: has_shape_def)
  have rows: "\<And>i. i < h \<Longrightarrow> length (a ! i) = w \<and> length (b ! i) = w"
    using assms by (simp add: has_shape_def list_all_length)
  have "np_sum (img_mul a b) = sum_list (map2 (\<lambda>r s. sum_list (map2 (*) r s)) a b)"
    by (simp add: np_sum_def img_mul_def case_prod_unfold comp_def)
  also have "\<dots> = (\<Sum>i<h. sum_list (map2 (*) (a ! i) (b ! i)))"
    using la lb by (rule sum_list_map2_nth)
  also have "\<dots> = (\<Sum>i<h. \<Sum>j<w. a ! i ! j * b ! i ! j)"
    by (rule sum.cong) (simp_all add: rows sum_list_map2_nth [where n = w])
  finally show ?thesis .
qed

lemma has_shape_img_sq: "has_shape h w a \<Longrightarrow> has_shape h w (img_sq a)"
  by (simp add: has_shape_def img_sq_def list_all_length)

lemma img_sq_nth:
  "has_shape h w a \<Longrightarrow> i < h \<Longrightarrow> j < w \<Longrightarrow> img_sq a ! i ! j = (a ! i ! j) ^ 2"
  by (simp add: has_shape_def img_sq_def list_all_length)

lemma cad_loop_ok:
  "\<forall>cad \<in> set cads. cad < length errs \<Longrightarrow>
   cad_loop frames errs ap cads =
     Inr (map (\<lambda>cad. lc_err_entry (errs ! cad) ap) cads,
          map (\<lambda>cad. lc_entry (frames ! cad) ap) cads)"
  by (induction cads) simp_all


section \<open>Photometry of one aperture\<close>

text \<open>
  Claim C1, as the code has it. For one aperture, the loop over the cadences
  returns two series of the cutout sequence's length. At each cadence \<open>t\<close> the
  flux is the sum over the pixels of \<open>cutout[t]\<close> times the mask weight. The
  flux error is numpy's square root (NaN below zero) of the sum over the pixels
  of \<open>error[t]\<close> squared times the mask weight itself: the weight is not squared.
  Both hold for arrays of one shape and an error sequence that has a frame for
  every cadence.
\<close>

theorem photometry_entries:
  assumes "length frames \<le> length errs"
    and "t < length frames"
    and "has_shape h w (frames ! t)"
    and "has_shape h w (errs ! t)"
    and "has_shape h w ap"
  shows "\<exists>es fs. cad_loop frames errs ap [0..<length frames] = Inr (es, fs)
           \<and> length es = length frames \<and> length fs = length frames
           \<and> fs ! t = (\<Sum>i<h. \<Sum>j<w. frames ! t ! i ! j * ap ! i ! j)
           \<and> es ! t = np_sqrt (\<Sum>i<h. \<Sum>j<w. (errs ! t ! i ! j) ^ 2 * ap ! i ! j)"
proof -
  let ?es = "map (\<lambda>cad. lc_err_entry (errs ! cad) ap) [0..<length frames]"
  let ?fs = "map (\<lambda>cad. lc_entry (frames ! cad) ap) [0..<length frames]"
  have run: "cad_loop frames errs ap [0..<length frames] = Inr (?es, ?fs)"
    using assms(1) by (intro cad_loop_ok) auto
  have f: "?fs ! t = (\<Sum>i<h. \<Sum>j<w. frames ! t ! i ! j * ap ! i ! j)"
    using assms(2,3,5) by (simp add: lc_entry_def np_sum_img_mul)
  have "np_sum (img_mul (img_sq (errs ! t)) ap) = (\<Sum>i<h. \<Sum>j<w. img_sq (errs ! t) ! i ! j * ap ! i ! j)"
    using assms(4,5) by (intro np_sum_img_mul has_shape_img_sq)
  also have "\<dots> = (\<Sum>i<h. \<Sum>j<w. (errs ! t ! i ! j) ^ 2 * ap ! i ! j)"
    using assms(4) by (intro sum.cong refl) (simp add: img_sq_nth)
  finally have e: "?es ! t = np_sqrt (\<Sum>i<h. \<Sum>j<w. (errs ! t ! i ! j) ^ 2 * ap ! i ! j)"
    using assms(2) by (simp add: lc_err_entry_def)
  show ?thesis
    using run f e by simp
qed

theorem photometry_entries_witness:
  "cad_loop [[[1, 2], [3, 4]]] [[[3, 0], [0, 4]]] [[1, 0], [0, 1]] [0..<1] = Inr ([Val 5], [5])
   \<and> (\<exists>es fs. cad_loop [[[1, 2], [3, 4]]] [[[3, 0], [0, 4]]] [[1, 0], [0, 1]] [0..<1] = Inr (es, fs)
         \<and> fs ! 0 = 5 \<and> es ! 0 = Val 5)"
proof -
  have s25: "sqrt 25 = 5"
    by (rule real_sqrt_unique) simp_all
  have "\<exists>es fs. cad_loop [[[1, 2], [3, 4]]] [[[3, 0], [0, 4]]] [[1, 0], [0, 1]]
                  [0..<length [[[1, 2], [3, 4 :: real]]]] = Inr (es, fs)
           \<and> length es = length [[[1, 2], [3, 4 :: real]]] \<and> length fs = length [[[1, 2], [3, 4 :: real]]]
           \<and> fs ! 0 = (\<Sum>i<2. \<Sum>j<2. [[[1, 2], [3, 4]]] ! 0 ! i ! j * [[1, 0], [0, 1]] ! i ! j)
           \<and> es ! 0 = np_sqrt (\<Sum>i<2. \<Sum>j<2. ([[[3, 0], [0, 4]]] ! 0 ! i ! j) ^ 2 * [[1, 0], [0, 1]] ! i ! j)"
    by (rule photometry_entries) (simp_all add: has_shape_def)
  then show ?thesis
    by (simp add: lessThan_Suc numeral_2_eq_2 np_sqrt_def s25 lc_err_entry_def lc_entry_def
        np_sum_def img_mul_def img_sq_def)
qed

theorem flux_error_weight_squared_counterexample:
  "cad_loop [[[0]]] [[[2]]] [[1 / 4]] [0..<1] = Inr ([Val 1], [0])
   \<and> spec_flux_error [[2]] [[1 / 4]] = Val (1 / 2)
   \<and> lc_err_entry [[2]] [[1 / 4]] \<noteq> spec_flux_error [[2]] [[1 / 4]]"
  by (simp add: lc_err_entry_def lc_entry_def spec_flux_error_def np_sqrt_def np_sum_def
      img_mul_def img_sq_def real_sqrt_divide power2_eq_square)

section \<open>Selection of the best aperture\<close>

lemma np_std_Val: "xs \<noteq> [] \<Longrightarrow> np_std xs = Val (std_dev xs)"
proof -
  assume ne: "xs \<noteq> []"
  have "0 \<le> (\<Sum>x\<leftarrow>xs. \<bar>x - mean xs\<bar> ^ 2)"
    by (rule sum_list_nonneg) auto
  then have "\<not> (\<Sum>x\<leftarrow>xs. \<bar>x - mean xs\<bar> ^ 2) / real (length xs) < 0"
    by (simp add: not_less)
  then show ?thesis
    using ne by (simp add: np_std_def np_mean_def np_sqrt_def std_dev_def mean_def)
qed

lemma ap_loop_ok:
  "length frames \<le> length errs \<Longrightarrow>
   ap_loop frames errs aps =
     Inr (map (\<lambda>ap. map (\<lambda>cad. lc_err_entry (errs ! cad) ap) [0..<length frames]) aps,
          map (flux_series frames) aps,
          map (\<lambda>ap. np_std (flux_series frames ap)) aps)"
proof (induction aps)
  case Nil
  then show ?case by simp
next
  case (Cons ap aps)
  have "cad_loop frames errs ap [0..<length frames] =
     Inr (map (\<lambda>cad. lc_err_entry (errs ! cad) ap) [0..<length frames],
          map (\<lambda>cad. lc_entry (frames ! cad) ap) [0..<length frames])"
    using Cons.prems by (intro cad_loop_ok) auto
  moreover have "map (\<lambda>cad. lc_entry (frames ! cad) ap) [0..<length frames] = flux_series frames ap"
    by (rule nth_equalityI) (simp_all add: flux_series_def)
  ultimately show ?case
    using Cons by simp
qed

lemma fold_fmin_Val: "fold fmin (map Val ys) (Val y) = Val (fold min ys y)"
  by (induction ys arbitrary: y) simp_all

lemma np_min_Val: "zs \<noteq> [] \<Longrightarrow> np_min (map Val zs) = Inr (Val (Min (set zs)))"
  by (cases zs) (simp_all add: np_min_def fold_fmin_Val Min.set_eq_fold [symmetric] del: set_simps)

lemma np_where_eq_Val:
  "np_where_eq (map Val zs) (Val m) = filter (\<lambda>i. zs ! i = m) [0..<length zs]"
  by (auto simp: np_where_eq_def intro: filter_cong)

lemma filter_upt_first:
  assumes "filter P [0..<n] = k # rest"
  shows "k < n \<and> P k \<and> (\<forall>j<k. \<not> P j)"
proof -
  from assms obtain us vs where dec: "[0..<n] = us @ k # vs"
    and no: "\<forall>u\<in>set us. \<not> P u" and pk: "P k"
    by (auto simp: filter_eq_Cons_iff)
  have kn: "k \<in> set [0..<n]" using dec by simp
  then have "k < n" by simp
  have "length us < n"
    using arg_cong [OF dec, of length] by simp
  then have "[0..<n] ! length us = length us" by simp
  then have lk: "length us = k" using dec by simp
  have "us = take k [0..<n]" using dec lk by simp
  then have "us = [0..<k]" using \<open>k < n\<close> by (simp add: take_upt)
  then show ?thesis using no pk \<open>k < n\<close> by simp
qed

lemma filter_upt_nonempty: "i < n \<Longrightarrow> P i \<Longrightarrow> filter P [0..<n] \<noteq> []"
  by (auto simp: filter_empty_conv)


lemma get_lightcurve_select:
  assumes "ap_loop (tpf s) (tpf_err s) (all_apertures s) = Inr (E, F, stds)"
    and "np_min stds = Inr m"
    and "np_where_eq stds m = k # rest"
  shows "get_lightcurve False s =
      (Returned, s\<lparr>flux := None, flux_err := None, aperture := None,
                   all_lc := Some F, all_lc_err := Some E,
                   lc := Some (F ! k), aperture := Some (all_apertures s ! k), lc_err := Some (E ! k)\<rparr>)"
  using assms by (simp add: get_lightcurve_def Let_def)

text \<open>
  Claim C2, as the code has it. For a non-empty catalogue and a non-empty cutout
  sequence (with an error frame for every cadence), \<^verbatim>\<open>get_lightcurve\<close> scores
  each candidate by \<^verbatim>\<open>np.std\<close> of its flux series, which is the standard
  deviation that divides by the number of cadences, and returns: the chosen
  aperture and light curve are those of a candidate \<open>k\<close> whose score is the
  least of all, and every candidate before \<open>k\<close> in the catalogue has a strictly
  larger score.
\<close>

theorem best_aperture_min_std:
  assumes "all_apertures s \<noteq> []"
    and "tpf s \<noteq> []"
    and "length (tpf s) \<le> length (tpf_err s)"
  shows "\<exists>k s' E. k < length (all_apertures s)
           \<and> ap_loop (tpf s) (tpf_err s) (all_apertures s) =
               Inr (E, map (flux_series (tpf s)) (all_apertures s),
                    map (\<lambda>ap. Val (std_dev (flux_series (tpf s) ap))) (all_apertures s))
           \<and> get_lightcurve False s = (Returned, s')
           \<and> aperture s' = Some (all_apertures s ! k)
           \<and> lc s' = Some (flux_series (tpf s) (all_apertures s ! k))
           \<and> (\<forall>j<length (all_apertures s).
                 std_dev (flux_series (tpf s) (all_apertures s ! k))
                   \<le> std_dev (flux_series (tpf s) (all_apertures s ! j)))
           \<and> (\<forall>j<k. std_dev (flux_series (tpf s) (all_apertures s ! k))
                   < std_dev (flux_series (tpf s) (all_apertures s ! j)))"
proof -
  let ?aps = "all_apertures s"
  let ?n = "length ?aps"
  let ?sc = "\<lambda>ap. std_dev (flux_series (tpf s) ap)"
  let ?zs = "map ?sc ?aps"
  let ?E = "map (\<lambda>ap. map (\<lambda>cad. lc_err_entry (tpf_err s ! cad) ap) [0..<length (tpf s)]) ?aps"
  let ?F = "map (flux_series (tpf s)) ?aps"
  let ?m = "Min (set ?zs)"
  have series_ne: "\<And>ap. flux_series (tpf s) ap \<noteq> []"
    using assms(2) by (simp add: flux_series_def)
  have stds: "map (\<lambda>ap. np_std (flux_series (tpf s) ap)) ?aps = map Val ?zs"
    by (simp add: np_std_Val series_ne)
  have loop: "ap_loop (tpf s) (tpf_err s) ?aps = Inr (?E, ?F, map Val ?zs)"
    using ap_loop_ok [OF assms(3), of ?aps] stds by simp
  have zs_ne: "?zs \<noteq> []" using assms(1) by simp
  have minv: "np_min (map Val ?zs) = Inr (Val ?m)"
    using zs_ne by (rule np_min_Val)
  have "?m \<in> set ?zs"
    using zs_ne by (intro Min_in) simp_all
  then obtain i where i: "i < ?n" "?zs ! i = ?m"
    by (auto simp: in_set_conv_nth)
  have wh: "np_where_eq (map Val ?zs) (Val ?m) = filter (\<lambda>i. ?zs ! i = ?m) [0..<?n]"
    using np_where_eq_Val [of ?zs ?m] by simp
  have "filter (\<lambda>i. ?zs ! i = ?m) [0..<?n] \<noteq> []"
    using i by (intro filter_upt_nonempty [of i]) simp_all
  then obtain k rest where kr: "filter (\<lambda>i. ?zs ! i = ?m) [0..<?n] = k # rest"
    by (cases "filter (\<lambda>i. ?zs ! i = ?m) [0..<?n]") auto
  from filter_upt_first [OF kr]
  have k: "k < ?n" "?zs ! k = ?m" "\<forall>j<k. ?zs ! j \<noteq> ?m"
    by auto
  have le: "\<And>j. j < ?n \<Longrightarrow> ?m \<le> ?zs ! j"
    by (intro Min_le) simp_all
  have all_le: "\<forall>j<?n. ?sc (?aps ! k) \<le> ?sc (?aps ! j)"
    using k(1,2) le by (metis nth_map)
  have lt: "\<forall>j<k. ?sc (?aps ! k) < ?sc (?aps ! j)"
  proof (intro allI impI)
    fix j assume "j < k"
    then have "j < ?n" using k(1) by simp
    have "?zs ! j \<noteq> ?m" using k(3) \<open>j < k\<close> by blast
    moreover have "?m \<le> ?zs ! j" using le \<open>j < ?n\<close> by blast
    ultimately have "?m < ?zs ! j" by simp
    then show "?sc (?aps ! k) < ?sc (?aps ! j)"
      using k(1,2) \<open>j < ?n\<close> by (metis nth_map)
  qed
  define s' where "s' = s\<lparr>flux := None, flux_err := None, aperture := None,
                   all_lc := Some ?F, all_lc_err := Some ?E,
                   lc := Some (?F ! k), aperture := Some (?aps ! k), lc_err := Some (?E ! k)\<rparr>"
  have gl: "get_lightcurve False s = (Returned, s')"
    unfolding s'_def using loop minv by (rule get_lightcurve_select) (simp only: wh kr)
  have ap: "aperture s' = Some (?aps ! k)"
    by (simp add: s'_def)
  have l: "lc s' = Some (flux_series (tpf s) (?aps ! k))"
    using k(1) by (simp add: s'_def)
  have loop': "ap_loop (tpf s) (tpf_err s) ?aps = Inr (?E, ?F, map (\<lambda>ap. Val (?sc ap)) ?aps)"
    using loop by (simp add: comp_def)
  from k(1) loop' gl ap l all_le lt show ?thesis
    by blast
qed


lemma ex_state_run:
  "get_lightcurve False ex_state =
     (Returned, ex_state\<lparr>all_lc := Some [[1, 3], [0, 0], [0, 0]],
        all_lc_err := Some [[Val 0, Val 0], [Val 0, Val 0], [Val 0, Val 0]],
        lc := Some [0, 0], aperture := Some [[0]], lc_err := Some [Val 0, Val 0]\<rparr>)"
  by (simp add: get_lightcurve_def ex_state_def Let_def upt_rec [of 0] upt_rec [of 1] upt_rec [of 2] upt_rec [of 3]
     lc_err_entry_def lc_entry_def np_sum_def img_mul_def img_sq_def np_sqrt_def np_std_def np_mean_def
     np_min_def np_where_eq_def)

theorem best_aperture_min_std_witness:
  "all_apertures ex_state \<noteq> [] \<and> tpf ex_state \<noteq> [] \<and> length (tpf ex_state) \<le> length (tpf_err ex_state)
   \<and> aperture (snd (get_lightcurve False ex_state)) = Some (all_apertures ex_state ! 1)
   \<and> (\<exists>k s' E. k < length (all_apertures ex_state)
           \<and> ap_loop (tpf ex_state) (tpf_err ex_state) (all_apertures ex_state) =
               Inr (E, map (flux_series (tpf ex_state)) (all_apertures ex_state),
                    map (\<lambda>ap. Val (std_dev (flux_series (tpf ex_state) ap))) (all_apertures ex_state))
           \<and> get_lightcurve False ex_state = (Returned, s')
           \<and> aperture s' = Some (all_apertures ex_state ! k)
           \<and> lc s' = Some (flux_series (tpf ex_state) (all_apertures ex_state ! k))
           \<and> (\<forall>j<length (all_apertures ex_state).
                 std_dev (flux_series (tpf ex_state) (all_apertures ex_state ! k))
                   \<le> std_dev (flux_series (tpf ex_state) (all_apertures ex_state ! j)))
           \<and> (\<forall>j<k. std_dev (flux_series (tpf ex_state) (all_apertures ex_state ! k))
                   < std_dev (flux_series (tpf ex_state) (all_apertures ex_state ! j))))"
proof -
  have h1: "all_apertures ex_state \<noteq> []" and h2: "tpf ex_state \<noteq> []"
    and h3: "length (tpf ex_state) \<le> length (tpf_err ex_state)"
    by (simp_all add: ex_state_def)
  have "aperture (snd (get_lightcurve False ex_state)) = Some (all_apertures ex_state ! 1)"
    by (simp add: ex_state_run) (simp add: ex_state_def)
  then show ?thesis
    using h1 h2 h3 best_aperture_min_std [OF h1 h2 h3] by blast
qed

text \<open>On the flux series \<open>[0, 2]\<close> the code's score is 1; the sample standard
  deviation, which divides by one less than the number of values, is the square root of 2.\<close>

theorem sample_std_score_counterexample:
  "ap_loop [[[0]], [[2]]] [[[0]], [[0]]] [[[1]]] = Inr ([[Val 0, Val 0]], [[0, 2]], [Val 1])
   \<and> sample_std [0, 2] = Val (sqrt 2)
   \<and> np_std [0, 2] \<noteq> sample_std [0, 2]"
  by (simp add: upt_rec [of 0] upt_rec [of 1] upt_rec [of 2]
     lc_err_entry_def lc_entry_def np_sum_def img_mul_def img_sq_def np_sqrt_def np_std_def np_mean_def
     sample_std_def mean_def)

section \<open>Failures of the light-curve extraction\<close>


















































text \<open>
  Claim C10. On the custom-mask path, with a custom mask in place, a non-empty
  cutout sequence and an error frame for every cadence, \<^verbatim>\<open>get_lightcurve\<close>
  raises NameError (the store into \<^verbatim>\<open>lc_err\<close> at the first cadence), and
  \<^verbatim>\<open>flux\<close>, \<^verbatim>\<open>flux_err\<close> and \<^verbatim>\<open>aperture\<close> stay \<^verbatim>\<open>None\<close>.
\<close>

theorem custom_path_name_error:
  assumes "custom_aperture_attr s = Mask m"
    and "tpf s \<noteq> []"
    and "length (tpf s) \<le> length (tpf_err s)"
  shows "get_lightcurve True s =
           (Raised NameError, s\<lparr>flux := None, flux_err := None, aperture := None\<rparr>)"
proof -
  from assms(2) obtain n where n: "length (tpf s) = Suc n"
    by (cases "tpf s") auto
  then have "tpf_err s \<noteq> []" using assms(3) by auto
  then show ?thesis
    using assms(1) n
    by (simp add: get_lightcurve_def Let_def upt_rec [of 0] mul_custom_def)
qed

theorem custom_path_name_error_witness:
  "custom_aperture_attr ex_custom = Mask [[1]] \<and> tpf ex_custom \<noteq> []
   \<and> length (tpf ex_custom) \<le> length (tpf_err ex_custom)
   \<and> get_lightcurve True ex_custom =
       (Raised NameError, ex_custom\<lparr>flux := None, flux_err := None, aperture := None\<rparr>)"
proof -
  have h1: "custom_aperture_attr ex_custom = Mask [[1]]" and h2: "tpf ex_custom \<noteq> []"
    and h3: "length (tpf ex_custom) \<le> length (tpf_err ex_custom)"
    by (simp_all add: ex_custom_def ex_state_def)
  show ?thesis
    using h1 h2 h3 custom_path_name_error [OF h1 h2 h3] by simp
qed

section \<open>The catalogue of candidate apertures\<close>

lemma upt_0_5: "[0..<5] = [0, 1, 2, 3, 4]"
  by code_simp

lemma r_list_values: "r_list = [1.5, 2, 2.5, 3, 3.5]"
  by (simp add: r_list_def np_arange_def upt_0_5)

lemma method_loop_ok:
  "method_loop rast (frame0 # rest) c r ms aps =
     (Returned, aps @ concat (map (\<lambda>m. [rast c m (np_shape frame0), rast r m (np_shape frame0)]) ms))"
  by (induction ms arbitrary: aps) simp_all

lemma r_loop_ok:
  "r_loop rast (frame0 # rest) rs aps =
     (Returned, aps @ concat (map (\<lambda>r.
        [rast (CircularAperture (4, 4) r) ''center'' (np_shape frame0),
         rast (RectangularAperture (4, 4) r r 0) ''center'' (np_shape frame0),
         rast (CircularAperture (4, 4) r) ''exact'' (np_shape frame0),
         rast (RectangularAperture (4, 4) r r 0) ''exact'' (np_shape frame0)]) rs))"
  by (induction rs arbitrary: aps) (simp_all add: method_loop_ok Let_def)

text \<open>
  Claim C8. The radii are 1.5, 2.0, 2.5, 3.0 and 3.5. On a non-empty cutout
  sequence \<^verbatim>\<open>create_apertures\<close> returns and leaves in \<^verbatim>\<open>all_apertures\<close> exactly 20
  masks: for each radius in this order, the circle of that radius and the
  rectangle of that length and width at rotation 0, both centred at (4, 4),
  under \<^verbatim>\<open>center\<close> and then the same two under \<^verbatim>\<open>exact\<close>, each rasterised to the
  shape of the first cutout frame.
\<close>

theorem create_apertures_catalog:
  assumes "tpf s = frame0 # rest"
  shows "r_list = [1.5, 2, 2.5, 3, 3.5]
    \<and> (\<exists>aps. create_apertures rast s = (Returned, s\<lparr>all_lc := None, all_apertures := aps\<rparr>)
         \<and> length aps = 20
         \<and> aps = concat (map (\<lambda>r.
              [rast (CircularAperture (4, 4) r) ''center'' (np_shape frame0),
               rast (RectangularAperture (4, 4) r r 0) ''center'' (np_shape frame0),
               rast (CircularAperture (4, 4) r) ''exact'' (np_shape frame0),
               rast (RectangularAperture (4, 4) r r 0) ''exact'' (np_shape frame0)]) r_list))"
  using assms by (simp add: create_apertures_def r_loop_ok r_list_values Let_def)

theorem create_apertures_catalog_witness:
  "tpf ex_state = [[1]] # [[[3]]]
   \<and> length (all_apertures (snd (create_apertures ex_rast ex_state))) = 20
   \<and> all_apertures (snd (create_apertures ex_rast ex_state)) ! 2 = [[1 / 2]]
   \<and> (\<exists>aps. create_apertures ex_rast ex_state = (Returned, ex_state\<lparr>all_lc := None, all_apertures := aps\<rparr>)
         \<and> length aps = 20)"
proof -
  have h: "tpf ex_state = [[1]] # [[[3]]]" by (simp add: ex_state_def)
  from create_apertures_catalog [OF h, of ex_rast]
  obtain aps where a: "create_apertures ex_rast ex_state = (Returned, ex_state\<lparr>all_lc := None, all_apertures := aps\<rparr>)"
      "length aps = 20"
      "aps = concat (map (\<lambda>r.
              [ex_rast (CircularAperture (4, 4) r) ''center'' (np_shape [[1]]),
               ex_rast (RectangularAperture (4, 4) r r 0) ''center'' (np_shape [[1]]),
               ex_rast (CircularAperture (4, 4) r) ''exact'' (np_shape [[1]]),
               ex_rast (RectangularAperture (4, 4) r r 0) ''exact'' (np_shape [[1]])]) r_list)"
    by blast
  have "aps ! 2 = [[1 / 2]]"
    by (simp add: a(3) r_list_values ex_rast_def np_shape_def)
  then show ?thesis using h a(1,2) by auto
qed


section \<open>Invalid requests for a custom aperture\<close>





section \<open>The jitter correction\<close>

lemma jitter_round_step:
  assumes "i = 0 \<or> j_test st = Some p"
  obtains st' e where
    "jitter_round mini x y lcv i st = Inr st'"
    "j_trace st' = j_trace st @ [e]"
    "j_test st' = Some (r_x e)"
    "r_init e = (if i = 0 then (3, 3, 3, 3, 3) else p)"
    "r_bounds e = [(-15, 15), (-15, 15), (-15, 15), (-15, 15), (-15, 15)]"
    "r_x e = mini (\<lambda>q. parabola q x y lcv (r_y_err e)) (r_init e) (r_bounds e)"
    "j_lc_new st' = map (\<lambda>(f, xv, yv). f * spec_factor 2.5 2.5 (r_x e) xv yv) (zip lcv (zip x y))"
proof -
  let ?inds = "np_where_le lcv (fsub (np_mean lcv) (fscale 2.5 (np_std (bool_index lcv (j_mask st)))))"
  let ?yerr = "fold (\<lambda>j ys. ys[j := PInf]) ?inds (np_ones_pow (length lcv) (np_std lcv))"
  let ?init = "if i = 0 then (3, 3, 3, 3, 3) else p"
  let ?b = "[(-15, 15), (-15, 15), (-15, 15), (-15, 15), (-15, 15)] :: (real \<times> real) list"
  let ?x = "mini (\<lambda>q. parabola q x y lcv ?yerr) ?init ?b"
  let ?e = "\<lparr>r_init = ?init, r_bounds = ?b, r_y_err = ?yerr, r_x = ?x\<rparr>"
  obtain c1 c2 c3 c4 c5 where x: "?x = (c1, c2, c3, c4, c5)"
    by (metis prod_cases5)
  let ?st = "\<lparr>j_mask = fold (\<lambda>j ms. ms[j := False]) ?inds (j_mask st), j_test = Some ?x,
      j_lc_new = map (\<lambda>(f, xv, yv). f * (c1 + c2 * (xv - 2.5) + c3 * (xv - 2.5) ^ 2
                                             + c4 * (yv - 2.5) + c5 * (yv - 2.5) ^ 2)) (zip lcv (zip x y)),
      j_trace = j_trace st @ [?e]\<rparr>"
  have run: "jitter_round mini x y lcv i st = Inr ?st"
    using assms x by (auto simp: jitter_round_def Let_def)
  have lcn: "j_lc_new ?st = map (\<lambda>(f, xv, yv). f * spec_factor 2.5 2.5 (r_x ?e) xv yv) (zip lcv (zip x y))"
    using x by (simp add: spec_factor_def)
  show ?thesis
    by (rule that [of ?st ?e]) (use run lcn in simp_all)
qed

lemma upt_0_10: "[0..<10] = [0, 1, 2, 3, 4, 5, 6, 7, 8, 9]"
  by code_simp

lemma sqrt_9: "sqrt 9 = 3"
  by (rule real_sqrt_unique) simp_all

lemma ex_std: "np_std ex_lc = Val 3" "np_mean ex_lc = Val (-1)"
  by (simp_all add: ex_lc_def np_std_def np_mean_def np_sqrt_def sqrt_9)

lemma ex_std1: "bool_index ex_lc ex_mask1 = [0, 0, 0, 0, 0, 0, 0, 0, 0]"
  "np_std [0, 0, 0, 0, 0, 0, 0, 0, 0] = Val 0" "np_mean [0, 0, 0, 0, 0, 0, 0, 0, 0] = Val 0"
  by (simp_all add: ex_lc_def ex_mask1_def bool_index_def np_std_def np_mean_def np_sqrt_def)

lemma ex_round0: "jitter_round ex_mini ex_pos ex_pos ex_lc 0 (jitter_init ex_lc) = Inr ex_st1"
proof -
  have r: "replicate 10 x = [x, x, x, x, x, x, x, x, x, x]" for x :: 'a
    by (simp add: eval_nat_numeral)
  have l: "length ex_lc = 10" by (simp add: ex_lc_def)
  have b: "bool_index ex_lc [True, True, True, True, True, True, True, True, True, True] = ex_lc"
    by (simp add: ex_lc_def bool_index_def)
  have w: "np_where_le ex_lc (Val (- 17 / 2)) = [9]"
    by (simp add: np_where_le_def ex_lc_def upt_0_10)
  have o: "np_ones_pow 10 (Val 3) = [Fin 1, Fin 1, Fin 1, Fin 1, Fin 1, Fin 1, Fin 1, Fin 1, Fin 1, Fin 1]"
    by (simp add: np_ones_pow_def r)
  show ?thesis
    by (simp add: jitter_round_def jitter_init_def Let_def b ex_std w o ex_mini_def l r
        ex_st1_def ex_mask1_def ex_y_err1_def bnds15_def)
      (simp add: ex_lc_def ex_pos_def np_where_le_def upt_0_10)
qed

lemma jitter_run_unfold:
  obtains st e0 e1 e2 e3 e4 where
    "jitter_run mini x y lcv = Inr st"
    "j_trace st = [e0, e1, e2, e3, e4]"
    "r_init e0 = (3, 3, 3, 3, 3)" "r_init e1 = r_x e0" "r_init e2 = r_x e1"
    "r_init e3 = r_x e2" "r_init e4 = r_x e3"
    "\<forall>e \<in> set [e0, e1, e2, e3, e4].
        r_bounds e = [(-15, 15), (-15, 15), (-15, 15), (-15, 15), (-15, 15)]
      \<and> r_x e = mini (\<lambda>q. parabola q x y lcv (r_y_err e)) (r_init e) (r_bounds e)"
    "j_test st = Some (r_x e4)"
    "j_lc_new st = map (\<lambda>(f, xv, yv). f * spec_factor 2.5 2.5 (r_x e4) xv yv) (zip lcv (zip x y))"
proof -
  obtain s0 e0 where r0: "jitter_round mini x y lcv 0 (jitter_init lcv) = Inr s0"
      "j_trace s0 = j_trace (jitter_init lcv) @ [e0]" "j_test s0 = Some (r_x e0)"
      "r_init e0 = (if (0::nat) = 0 then (3, 3, 3, 3, 3) else (0, 0, 0, 0, 0))"
      "r_bounds e0 = [(-15, 15), (-15, 15), (-15, 15), (-15, 15), (-15, 15)]"
      "r_x e0 = mini (\<lambda>q. parabola q x y lcv (r_y_err e0)) (r_init e0) (r_bounds e0)"
    using jitter_round_step [of 0 "jitter_init lcv" "(0, 0, 0, 0, 0)" mini x y lcv] by blast
  obtain s1 e1 where r1: "jitter_round mini x y lcv 1 s0 = Inr s1"
      "j_trace s1 = j_trace s0 @ [e1]" "j_test s1 = Some (r_x e1)"
      "r_init e1 = (if (1::nat) = 0 then (3, 3, 3, 3, 3) else r_x e0)"
      "r_bounds e1 = [(-15, 15), (-15, 15), (-15, 15), (-15, 15), (-15, 15)]"
      "r_x e1 = mini (\<lambda>q. parabola q x y lcv (r_y_err e1)) (r_init e1) (r_bounds e1)"
    using jitter_round_step [of 1 s0 "r_x e0" mini x y lcv] r0(3) by blast
  obtain s2 e2 where r2: "jitter_round mini x y lcv 2 s1 = Inr s2"
      "j_trace s2 = j_trace s1 @ [e2]" "j_test s2 = Some (r_x e2)"
      "r_init e2 = (if (2::nat) = 0 then (3, 3, 3, 3, 3) else r_x e1)"
      "r_bounds e2 = [(-15, 15), (-15, 15), (-15, 15), (-15, 15), (-15, 15)]"
      "r_x e2 = mini (\<lambda>q. parabola q x y lcv (r_y_err e2)) (r_init e2) (r_bounds e2)"
    using jitter_round_step [of 2 s1 "r_x e1" mini x y lcv] r1(3) by blast
  obtain s3 e3 where r3: "jitter_round mini x y lcv 3 s2 = Inr s3"
      "j_trace s3 = j_trace s2 @ [e3]" "j_test s3 = Some (r_x e3)"
      "r_init e3 = (if (3::nat) = 0 then (3, 3, 3, 3, 3) else r_x e2)"
      "r_bounds e3 = [(-15, 15), (-15, 15), (-15, 15), (-15, 15), (-15, 15)]"
      "r_x e3 = mini (\<lambda>q. parabola q x y lcv (r_y_err e3)) (r_init e3) (r_bounds e3)"
    using jitter_round_step [of 3 s2 "r_x e2" mini x y lcv] r2(3) by blast
  obtain s4 e4 where r4: "jitter_round mini x y lcv 4 s3 = Inr s4"
      "j_trace s4 = j_trace s3 @ [e4]" "j_test s4 = Some (r_x e4)"
      "r_init e4 = (if (4::nat) = 0 then (3, 3, 3, 3, 3) else r_x e3)"
      "r_bounds e4 = [(-15, 15), (-15, 15), (-15, 15), (-15, 15), (-15, 15)]"
      "r_x e4 = mini (\<lambda>q. parabola q x y lcv (r_y_err e4)) (r_init e4) (r_bounds e4)"
      "j_lc_new s4 = map (\<lambda>(f, xv, yv). f * spec_factor 2.5 2.5 (r_x e4) xv yv) (zip lcv (zip x y))"
    using jitter_round_step [of 4 s3 "r_x e3" mini x y lcv] r3(3) by blast
  have r1': "jitter_round mini x y lcv (Suc 0) s0 = Inr s1"
    using r1(1) by simp
  have run: "jitter_run mini x y lcv = Inr s4"
    by (simp add: jitter_run_def upt_0_5 r0(1) r1' r2(1) r3(1) r4(1))
  have tr: "j_trace s4 = [e0, e1, e2, e3, e4]"
    by (simp add: r4(2) r3(2) r2(2) r1(2) r0(2) jitter_init_def)
  show ?thesis
    by (rule that [of s4 e0 e1 e2 e3 e4])
      (use run tr r0 r1 r2 r3 r4 in simp_all)
qed

text \<open>
  Claim C7. With \<^verbatim>\<open>centroid_x\<close>, \<^verbatim>\<open>centroid_y\<close> and \<^verbatim>\<open>lc\<close> assigned,
  \<^verbatim>\<open>jitter_corr\<close> returns after exactly five rounds, each with one call of the
  optimiser. In every round the bounds are (-15, 15) for each of the five
  coefficients; the first round starts from (3, 3, 3, 3, 3) and every later
  round from the solution the optimiser returned in the round before.
\<close>

theorem jitter_five_rounds:
  assumes "centroid_x s = Some x_pos" and "centroid_y s = Some y_pos" and "lc s = Some lcv"
  shows "\<exists>st. jitter_run mini x_pos y_pos lcv = Inr st
    \<and> jitter_corr mini s = (Returned, s\<lparr>lc := Some (j_lc_new st)\<rparr>)
    \<and> length (j_trace st) = 5
    \<and> map r_bounds (j_trace st) = replicate 5 [(-15, 15), (-15, 15), (-15, 15), (-15, 15), (-15, 15)]
    \<and> map r_init (j_trace st) = (3, 3, 3, 3, 3) # butlast (map r_x (j_trace st))
    \<and> list_all (\<lambda>e. r_x e = mini (\<lambda>q. parabola q x_pos y_pos lcv (r_y_err e)) (r_init e) (r_bounds e))
         (j_trace st)"
proof -
  obtain st e0 e1 e2 e3 e4 where u:
    "jitter_run mini x_pos y_pos lcv = Inr st"
    "j_trace st = [e0, e1, e2, e3, e4]"
    "r_init e0 = (3, 3, 3, 3, 3)" "r_init e1 = r_x e0" "r_init e2 = r_x e1"
    "r_init e3 = r_x e2" "r_init e4 = r_x e3"
    "\<forall>e \<in> set [e0, e1, e2, e3, e4].
        r_bounds e = [(-15, 15), (-15, 15), (-15, 15), (-15, 15), (-15, 15)]
      \<and> r_x e = mini (\<lambda>q. parabola q x_pos y_pos lcv (r_y_err e)) (r_init e) (r_bounds e)"
    by (rule jitter_run_unfold [of mini x_pos y_pos lcv]) blast
  have c: "jitter_corr mini s = (Returned, s\<lparr>lc := Some (j_lc_new st)\<rparr>)"
    using assms u(1) by (simp add: jitter_corr_def)
  have r5: "replicate 5 b = [b, b, b, b, b]" for b :: "(real \<times> real) list"
    by (simp add: eval_nat_numeral)
  have n: "length (j_trace st) = 5"
    by (simp add: u(2))
  have b: "map r_bounds (j_trace st) =
      replicate 5 [(-15, 15), (-15, 15), (-15, 15), (-15, 15), (-15, 15)]"
    using u(8) by (simp add: u(2) r5)
  have i: "map r_init (j_trace st) = (3, 3, 3, 3, 3) # butlast (map r_x (j_trace st))"
    by (simp add: u(2) u(3) u(4) u(5) u(6) u(7))
  have a: "list_all (\<lambda>e. r_x e = mini (\<lambda>q. parabola q x_pos y_pos lcv (r_y_err e)) (r_init e) (r_bounds e))
         (j_trace st)"
    unfolding u(2) list_all_iff using u(8) by blast
  show ?thesis
    by (intro exI [of _ st] conjI) (fact u(1) c n b i a)+
qed

text \<open>
  Claim C3, as the code has it. The factor applied to the flux, in the
  objective that is minimised and in the corrected light curve that
  \<^verbatim>\<open>jitter_corr\<close> stores, is
  \<open>c1 + c2 (x - x0) + c3 (x - x0)\<^sup>2 + c4 (y - y0) + c5 (y - y0)\<^sup>2\<close> with
  \<open>x0 = y0 = 2.5\<close>, and not 4.0.
\<close>

theorem jitter_factor_centring:
  "parabola params x y f_obs y_err =
     sum_list (map (\<lambda>(f, xv, yv, e). (ediv (1 - f * spec_factor 2.5 2.5 params xv yv) e) ^ 2)
       (zip f_obs (zip x (zip y y_err))))
   \<and> (\<exists>st p. jitter_run mini x_pos y_pos lcv = Inr st \<and> j_test st = Some p
        \<and> j_lc_new st = map (\<lambda>(f, xv, yv). f * spec_factor 2.5 2.5 p xv yv) (zip lcv (zip x_pos y_pos)))"
proof -
  obtain c1 c2 c3 c4 c5 where p: "params = (c1, c2, c3, c4, c5)"
    by (metis prod_cases5)
  have z: "zip (map (\<lambda>(f, xv, yv). g f xv yv) (zip fs (zip xs ys))) es =
           map (\<lambda>(f, xv, yv, e). (g f xv yv, e)) (zip fs (zip xs (zip ys es)))"
    for g :: "real \<Rightarrow> real \<Rightarrow> real \<Rightarrow> real" and fs xs ys :: "real list" and es :: "efloat list"
  proof (induction fs arbitrary: xs ys es)
    case Nil
    then show ?case by simp
  next
    case (Cons f fs)
    show ?case
    proof (cases xs)
      case Nil
      then show ?thesis by simp
    next
      case xs: (Cons xv xs')
      show ?thesis
      proof (cases ys)
        case Nil
        then show ?thesis by (simp add: xs)
      next
        case ys: (Cons yv ys')
        show ?thesis
          by (cases es) (simp_all add: xs ys Cons.IH)
      qed
    qed
  qed
  have obj: "parabola params x y f_obs y_err =
     sum_list (map (\<lambda>(f, xv, yv, e). (ediv (1 - f * spec_factor 2.5 2.5 params xv yv) e) ^ 2)
       (zip f_obs (zip x (zip y y_err))))"
    unfolding parabola_def p
    by (simp only: prod.case Let_def z)
      (simp add: spec_factor_def case_prod_unfold comp_def)
  obtain st and e4 :: round_log where u:
    "jitter_run mini x_pos y_pos lcv = Inr st"
    "j_test st = Some (r_x e4)"
    "j_lc_new st = map (\<lambda>(f, xv, yv). f * spec_factor 2.5 2.5 (r_x e4) xv yv) (zip lcv (zip x_pos y_pos))"
    by (rule jitter_run_unfold [of mini x_pos y_pos lcv]) (rule that, assumption+)
  show ?thesis
    by (intro conjI exI [of _ st] exI [of _ "r_x e4"]) (fact obj u)+
qed

theorem jitter_centre_counterexample:
  "(case jitter_run ex_const [4] [4] [1] of Inr st \<Rightarrow> j_lc_new st | Inl ex \<Rightarrow> []) = [3 / 2]
   \<and> map (\<lambda>(f, xv, yv). f * spec_factor 4 4 (0, 1, 0, 0, 0) xv yv) (zip [1] (zip [4] [4])) = [0]
   \<and> spec_factor 2.5 2.5 (0, 1, 0, 0, 0) 4 4 \<noteq> spec_factor 4 4 (0, 1, 0, 0, 0) 4 4"
proof -
  obtain st e0 e1 e2 e3 e4 where u:
    "jitter_run ex_const [4] [4] [1] = Inr st"
    "j_trace st = [e0, e1, e2, e3, e4]"
    "r_init e0 = (3, 3, 3, 3, 3)" "r_init e1 = r_x e0" "r_init e2 = r_x e1"
    "r_init e3 = r_x e2" "r_init e4 = r_x e3"
    "\<forall>e \<in> set [e0, e1, e2, e3, e4].
        r_bounds e = [(-15, 15), (-15, 15), (-15, 15), (-15, 15), (-15, 15)]
      \<and> r_x e = ex_const (\<lambda>q. parabola q [4] [4] [1] (r_y_err e)) (r_init e) (r_bounds e)"
    "j_test st = Some (r_x e4)"
    "j_lc_new st = map (\<lambda>(f, xv, yv). f * spec_factor 2.5 2.5 (r_x e4) xv yv) (zip [1] (zip [4] [4]))"
    by (rule jitter_run_unfold [of ex_const "[4]" "[4]" "[1]"]) blast
  have "r_x e4 = (0, 1, 0, 0, 0)"
    using u(8) by (simp add: ex_const_def)
  then have "j_lc_new st = [3 / 2]"
    using u(10) by (simp add: spec_factor_def)
  then show ?thesis
    by (simp add: u(1) spec_factor_def)
qed

theorem jitter_five_rounds_witness:
  "centroid_x ex_jit = Some ex_pos \<and> centroid_y ex_jit = Some ex_pos \<and> lc ex_jit = Some ex_lc
   \<and> fst (jitter_corr ex_mini ex_jit) = Returned
   \<and> (\<exists>st. jitter_run ex_mini ex_pos ex_pos ex_lc = Inr st
        \<and> jitter_corr ex_mini ex_jit = (Returned, ex_jit\<lparr>lc := Some (j_lc_new st)\<rparr>)
        \<and> length (j_trace st) = 5
        \<and> map r_init (j_trace st) = (3, 3, 3, 3, 3) # butlast (map r_x (j_trace st)))"
proof -
  have h: "centroid_x ex_jit = Some ex_pos" "centroid_y ex_jit = Some ex_pos" "lc ex_jit = Some ex_lc"
    by (simp_all add: ex_jit_def)
  from jitter_five_rounds [OF h, of ex_mini]
  obtain st where st: "jitter_run ex_mini ex_pos ex_pos ex_lc = Inr st"
    "jitter_corr ex_mini ex_jit = (Returned, ex_jit\<lparr>lc := Some (j_lc_new st)\<rparr>)"
    "length (j_trace st) = 5"
    "map r_init (j_trace st) = (3, 3, 3, 3, 3) # butlast (map r_x (j_trace st))"
    by (elim exE conjE) (rule that, assumption+)
  have r: "fst (jitter_corr ex_mini ex_jit) = Returned"
    by (simp add: st(2))
  show ?thesis
    by (intro conjI exI [of _ st]) (fact h r st)+
qed

lemma fold_update_length: "length (fold (\<lambda>j ys. ys[j := v]) inds ys) = length ys"
  by (induction inds arbitrary: ys) simp_all

lemma fold_update_nth:
  "k < length ys \<Longrightarrow>
   fold (\<lambda>j ys. ys[j := v]) inds ys ! k = (if k \<in> set inds then v else ys ! k)"
proof (induction inds arbitrary: ys)
  case Nil
  then show ?case by simp
next
  case (Cons j inds)
  have "fold (\<lambda>j ys. ys[j := v]) inds (ys[j := v]) ! k =
        (if k \<in> set inds then v else ys[j := v] ! k)"
    using Cons.prems by (intro Cons.IH) simp
  then show ?case
    using Cons.prems by (auto simp: nth_list_update)
qed

lemma set_np_where_le: "set (np_where_le xs t) = {i. i < length xs \<and> fle (xs ! i) t}"
  by (auto simp: np_where_le_def)

lemma np_ones_pow_eq: "np_ones_pow n e = replicate n (Fin 1)"
  by (cases e) (simp_all add: np_ones_pow_def)

lemma bool_index_filter:
  "length msk = length xs \<Longrightarrow>
   bool_index xs msk = map (\<lambda>k. xs ! k) (filter (\<lambda>k. msk ! k) [0..<length xs])"
proof (induction xs msk rule: list_induct2')
  case (4 x xs m msk)
  then have len: "length msk = length xs" by simp
  have shift: "[0..<length (x # xs)] = 0 # map Suc [0..<length xs]"
    by (simp add: upt_conv_Cons map_Suc_upt del: upt_Suc)
  have "bool_index (x # xs) (m # msk) = (if m then [x] else []) @ bool_index xs msk"
    by (simp add: bool_index_def)
  also have "bool_index xs msk = map (\<lambda>k. xs ! k) (filter (\<lambda>k. msk ! k) [0..<length xs])"
    using 4 len by simp
  finally show ?case
    unfolding shift by (simp add: filter_map comp_def)
qed (simp_all add: bool_index_def)

lemma jitter_round_fields:
  assumes "jitter_round mini x_pos y_pos lcv i st = Inr st'"
  shows "j_mask st' = fold (\<lambda>j ms. ms[j := False])
            (np_where_le lcv (fsub (np_mean lcv) (fscale 2.5 (np_std (bool_index lcv (j_mask st))))))
            (j_mask st)"
    and "r_y_err (last (j_trace st')) = fold (\<lambda>j ys. ys[j := PInf])
            (np_where_le lcv (fsub (np_mean lcv) (fscale 2.5 (np_std (bool_index lcv (j_mask st))))))
            (np_ones_pow (length lcv) (np_std lcv))"
  using assms
  by (auto simp: jitter_round_def Let_def split: if_splits option.splits prod.splits)

text \<open>
  Claim C6, as the code has it. In a round, the standard deviation is taken over
  the included flux values only, but the mean is taken over all flux values of
  the series. With the threshold \<open>mean of all flux - 2.5 * that standard
  deviation\<close> (NaN when nothing is included, and then no comparison holds), a
  cadence is included after the round exactly if it was included before and
  its flux is not at or below the threshold, and its entry of \<^verbatim>\<open>y_err\<close> is
  infinite exactly if its flux is at or below the threshold, and 1 otherwise.
  The mask and \<^verbatim>\<open>y_err\<close> keep the length of the series.
\<close>

theorem jitter_round_exclusion:
  assumes "length (j_mask st) = length lcv"
    and "jitter_round mini x_pos y_pos lcv i st = Inr st'"
  shows "(let included = map (\<lambda>k. lcv ! k) (filter (\<lambda>k. j_mask st ! k) [0..<length lcv]);
              thr = fsub (np_mean lcv) (fscale 2.5 (np_std included))
          in length (j_mask st') = length lcv
           \<and> length (r_y_err (last (j_trace st'))) = length lcv
           \<and> (\<forall>k<length lcv.
                 j_mask st' ! k = (j_mask st ! k \<and> \<not> fle (lcv ! k) thr)
               \<and> r_y_err (last (j_trace st')) ! k = (if fle (lcv ! k) thr then PInf else Fin 1))
           \<and> (included \<noteq> [] \<longrightarrow> thr = Val (mean lcv - 2.5 * std_dev included)))"
proof -
  let ?inc = "map (\<lambda>k. lcv ! k) (filter (\<lambda>k. j_mask st ! k) [0..<length lcv])"
  let ?thr = "fsub (np_mean lcv) (fscale 2.5 (np_std ?inc))"
  let ?inds = "np_where_le lcv ?thr"
  have inc: "bool_index lcv (j_mask st) = ?inc"
    using assms(1) by (rule bool_index_filter)
  have m: "j_mask st' = fold (\<lambda>j ms. ms[j := False]) ?inds (j_mask st)"
    using jitter_round_fields(1) [OF assms(2)] by (simp only: inc)
  have y: "r_y_err (last (j_trace st')) = fold (\<lambda>j ys. ys[j := PInf]) ?inds (replicate (length lcv) (Fin 1))"
    using jitter_round_fields(2) [OF assms(2)] by (simp only: inc np_ones_pow_eq)
  have lm: "length (j_mask st') = length lcv"
    by (simp add: m fold_update_length assms(1))
  have ly: "length (r_y_err (last (j_trace st'))) = length lcv"
    by (simp add: y fold_update_length)
  have each: "\<forall>k<length lcv.
                 j_mask st' ! k = (j_mask st ! k \<and> \<not> fle (lcv ! k) ?thr)
               \<and> r_y_err (last (j_trace st')) ! k = (if fle (lcv ! k) ?thr then PInf else Fin 1)"
  proof (intro allI impI)
    fix k assume k: "k < length lcv"
    have mem: "k \<in> set ?inds \<longleftrightarrow> fle (lcv ! k) ?thr"
      using k by (simp add: set_np_where_le)
    have "j_mask st' ! k = (if k \<in> set ?inds then False else j_mask st ! k)"
      unfolding m using k assms(1) by (intro fold_update_nth) simp
    moreover have "r_y_err (last (j_trace st')) ! k =
        (if k \<in> set ?inds then PInf else replicate (length lcv) (Fin 1) ! k)"
      unfolding y using k by (intro fold_update_nth) simp
    ultimately show "j_mask st' ! k = (j_mask st ! k \<and> \<not> fle (lcv ! k) ?thr)
               \<and> r_y_err (last (j_trace st')) ! k = (if fle (lcv ! k) ?thr then PInf else Fin 1)"
      using k mem by simp
  qed
  have val: "?inc \<noteq> [] \<longrightarrow> ?thr = Val (mean lcv - 2.5 * std_dev ?inc)"
  proof
    assume ne: "?inc \<noteq> []"
    then have "lcv \<noteq> []" by auto
    then have "np_mean lcv = Val (mean lcv)"
      by (simp add: np_mean_def mean_def)
    then show "?thr = Val (mean lcv - 2.5 * std_dev ?inc)"
      using np_std_Val [OF ne] by simp
  qed
  show ?thesis
    unfolding Let_def using lm ly each val by (intro conjI)
qed

theorem jitter_round_exclusion_witness:
  "length (j_mask (jitter_init ex_lc)) = length ex_lc
   \<and> jitter_round ex_mini ex_pos ex_pos ex_lc 0 (jitter_init ex_lc) = Inr ex_st1
   \<and> length (j_mask ex_st1) = length ex_lc
   \<and> j_mask ex_st1 ! 9 = False \<and> r_y_err (last (j_trace ex_st1)) ! 9 = PInf
   \<and> j_mask ex_st1 ! 0 = True \<and> r_y_err (last (j_trace ex_st1)) ! 0 = Fin 1"
proof -
  have h1: "length (j_mask (jitter_init ex_lc)) = length ex_lc"
    by (simp add: jitter_init_def)
  have inc: "map (\<lambda>k. ex_lc ! k) (filter (\<lambda>k. j_mask (jitter_init ex_lc) ! k) [0..<length ex_lc]) = ex_lc"
    by (simp add: ex_lc_def jitter_init_def upt_0_10)
  have thr: "fsub (np_mean ex_lc) (fscale 2.5 (np_std ex_lc)) = Val (- 17 / 2)"
    by (simp add: ex_std)
  have l: "length ex_lc = 10" by (simp add: ex_lc_def)
  note t = jitter_round_exclusion [OF h1 ex_round0, unfolded Let_def inc thr]
  from t have len: "length (j_mask ex_st1) = length ex_lc"
    by (elim conjE)
  from t have each: "\<forall>k<length ex_lc.
      j_mask ex_st1 ! k = (j_mask (jitter_init ex_lc) ! k \<and> \<not> fle (ex_lc ! k) (Val (- 17 / 2)))
      \<and> r_y_err (last (j_trace ex_st1)) ! k = (if fle (ex_lc ! k) (Val (- 17 / 2)) then PInf else Fin 1)"
    by (elim conjE)
  have k9: "j_mask ex_st1 ! 9 = False \<and> r_y_err (last (j_trace ex_st1)) ! 9 = PInf"
    using each [rule_format, of 9] by (simp add: l) (simp add: ex_lc_def)
  have k0: "j_mask ex_st1 ! 0 = True \<and> r_y_err (last (j_trace ex_st1)) ! 0 = Fin 1"
    using each [rule_format, of 0] by (simp add: l jitter_init_def) (simp add: ex_lc_def)
  show ?thesis
    using h1 ex_round0 len k9 k0 by (intro conjI) simp_all
qed

lemma ex_round1_eq: "jitter_round ex_mini ex_pos ex_pos ex_lc 1 ex_st1 = Inr ex_st2"
proof -
  have w: "np_where_le ex_lc (Val (- 1)) = [9]"
    by (simp add: np_where_le_def ex_lc_def upt_0_10)
  have m: "j_mask ex_st1 = ex_mask1" "j_test ex_st1 = Some (3, 3, 3, 3, 3)"
    by (simp_all add: ex_st1_def)
  have o: "np_ones_pow (length ex_lc) (Val 3) = [Fin 1, Fin 1, Fin 1, Fin 1, Fin 1, Fin 1, Fin 1, Fin 1, Fin 1, Fin 1]"
    by (simp add: np_ones_pow_def ex_lc_def)
  show ?thesis
    unfolding jitter_round_def m ex_std1 ex_std o
    by (simp add: w ex_mini_def Let_def)
      (simp add: ex_mask1_def ex_st2_def ex_st1_def ex_y_err1_def bnds15_def ex_lc_def ex_pos_def)
qed

theorem included_mean_counterexample:
  "jitter_round ex_mini ex_pos ex_pos ex_lc 0 (jitter_init ex_lc) = Inr ex_st1
   \<and> jitter_round ex_mini ex_pos ex_pos ex_lc 1 ex_st1 = Inr ex_st2
   \<and> j_mask ex_st1 ! 0 = True
   \<and> j_mask ex_st2 ! 0 = True
   \<and> r_y_err (last (j_trace ex_st2)) ! 0 = Fin 1
   \<and> spec_excluded ex_lc (j_mask ex_st1) 0"
proof -
  have "spec_excluded ex_lc (j_mask ex_st1) 0"
    by (simp add: spec_excluded_def ex_st1_def ex_std1) (simp add: ex_lc_def)
  then show ?thesis
    using ex_round0 ex_round1_eq
    by (simp add: ex_st2_def ex_st1_def ex_mask1_def ex_y_err1_def)
qed

section \<open>The combined entry point\<close>

text \<open>
  Claim C9. \<^verbatim>\<open>system_corr\<close> does nothing when neither flag is set, is
  \<^verbatim>\<open>jitter_corr\<close> when only \<open>jitter\<close> is set and \<^verbatim>\<open>rotation_corr\<close> when only
  \<open>roll\<close> is set. With both set it runs \<^verbatim>\<open>jitter_corr\<close> first and then
  \<^verbatim>\<open>rotation_corr\<close> on the state that \<^verbatim>\<open>jitter_corr\<close> left: with the
  attributes assigned, the roll correction is applied to the jitter-corrected
  light curve.
\<close>

theorem system_corr_order:
  "system_corr mini sff False False s = (Returned, s)
   \<and> system_corr mini sff True False s = jitter_corr mini s
   \<and> system_corr mini sff False True s = rotation_corr sff s
   \<and> system_corr mini sff True True s =
        (case jitter_corr mini s of
           (Raised ex, s1) \<Rightarrow> (Raised ex, s1)
         | (Returned, s1) \<Rightarrow> rotation_corr sff s1)
   \<and> (centroid_x s = Some x_pos \<and> centroid_y s = Some y_pos \<and> lc s = Some lcv \<longrightarrow>
        (\<exists>st. jitter_run mini x_pos y_pos lcv = Inr st
           \<and> jitter_corr mini s = (Returned, s\<lparr>lc := Some (j_lc_new st)\<rparr>)
           \<and> system_corr mini sff True True s =
               (Returned, s\<lparr>lc := Some (sff (map real [0..<length (j_lc_new st)]) (j_lc_new st)
                                          x_pos y_pos 1 1 5)\<rparr>)))"
proof -
  have a: "system_corr mini sff False False s = (Returned, s)"
    by (simp add: system_corr_def)
  have b: "system_corr mini sff True False s = jitter_corr mini s"
  proof (cases "jitter_corr mini s")
    case (Pair res s1)
    then show ?thesis by (cases res) (simp_all add: system_corr_def)
  qed
  have c: "system_corr mini sff False True s = rotation_corr sff s"
    by (simp add: system_corr_def)
  have d: "system_corr mini sff True True s =
        (case jitter_corr mini s of
           (Raised ex, s1) \<Rightarrow> (Raised ex, s1)
         | (Returned, s1) \<Rightarrow> rotation_corr sff s1)"
    by (simp add: system_corr_def split: prod.split outcome.split)
  have e: "centroid_x s = Some x_pos \<and> centroid_y s = Some y_pos \<and> lc s = Some lcv \<longrightarrow>
        (\<exists>st. jitter_run mini x_pos y_pos lcv = Inr st
           \<and> jitter_corr mini s = (Returned, s\<lparr>lc := Some (j_lc_new st)\<rparr>)
           \<and> system_corr mini sff True True s =
               (Returned, s\<lparr>lc := Some (sff (map real [0..<length (j_lc_new st)]) (j_lc_new st)
                                          x_pos y_pos 1 1 5)\<rparr>))"
  proof
    assume h: "centroid_x s = Some x_pos \<and> centroid_y s = Some y_pos \<and> lc s = Some lcv"
    obtain st and e4 :: round_log where run: "jitter_run mini x_pos y_pos lcv = Inr st"
      "j_test st = Some (r_x e4)"
      by (rule jitter_run_unfold [of mini x_pos y_pos lcv]) (rule that, assumption+)
    have j: "jitter_corr mini s = (Returned, s\<lparr>lc := Some (j_lc_new st)\<rparr>)"
      using h run(1) by (simp add: jitter_corr_def)
    have r: "rotation_corr sff (s\<lparr>lc := Some (j_lc_new st)\<rparr>) =
        (Returned, s\<lparr>lc := Some (sff (map real [0..<length (j_lc_new st)]) (j_lc_new st)
                                          x_pos y_pos 1 1 5)\<rparr>)"
      using h by (simp add: rotation_corr_def)
    have "system_corr mini sff True True s =
        (Returned, s\<lparr>lc := Some (sff (map real [0..<length (j_lc_new st)]) (j_lc_new st)
                                          x_pos y_pos 1 1 5)\<rparr>)"
      by (simp only: d j prod.case outcome.case r)
    with run(1) j show "\<exists>st. jitter_run mini x_pos y_pos lcv = Inr st
           \<and> jitter_corr mini s = (Returned, s\<lparr>lc := Some (j_lc_new st)\<rparr>)
           \<and> system_corr mini sff True True s =
               (Returned, s\<lparr>lc := Some (sff (map real [0..<length (j_lc_new st)]) (j_lc_new st)
                                          x_pos y_pos 1 1 5)\<rparr>)"
      by (intro exI [of _ st] conjI)
  qed
  show ?thesis
    by (intro conjI) (fact a b c d e)+
qed

theorem system_corr_order_witness:
  "centroid_x ex_jit = Some ex_pos \<and> centroid_y ex_jit = Some ex_pos \<and> lc ex_jit = Some ex_lc
   \<and> fst (system_corr ex_mini ex_sff True True ex_jit) = Returned
   \<and> (\<exists>st. jitter_run ex_mini ex_pos ex_pos ex_lc = Inr st
         \<and> lc (snd (system_corr ex_mini ex_sff True True ex_jit)) = Some (map (\<lambda>v. v / 2) (j_lc_new st)))"
proof -
  have h: "centroid_x ex_jit = Some ex_pos \<and> centroid_y ex_jit = Some ex_pos \<and> lc ex_jit = Some ex_lc"
    by (simp add: ex_jit_def)
  note t = system_corr_order [of ex_mini ex_sff ex_jit ex_pos ex_pos ex_lc]
  from t have imp: "centroid_x ex_jit = Some ex_pos \<and> centroid_y ex_jit = Some ex_pos \<and> lc ex_jit = Some ex_lc \<longrightarrow>
        (\<exists>st. jitter_run ex_mini ex_pos ex_pos ex_lc = Inr st
           \<and> jitter_corr ex_mini ex_jit = (Returned, ex_jit\<lparr>lc := Some (j_lc_new st)\<rparr>)
           \<and> system_corr ex_mini ex_sff True True ex_jit =
               (Returned, ex_jit\<lparr>lc := Some (ex_sff (map real [0..<length (j_lc_new st)]) (j_lc_new st)
                                          ex_pos ex_pos 1 1 5)\<rparr>))"
    by (elim conjE)
  from mp [OF imp h] obtain st where st: "jitter_run ex_mini ex_pos ex_pos ex_lc = Inr st"
      "system_corr ex_mini ex_sff True True ex_jit =
               (Returned, ex_jit\<lparr>lc := Some (ex_sff (map real [0..<length (j_lc_new st)]) (j_lc_new st)
                                          ex_pos ex_pos 1 1 5)\<rparr>)"
    by (elim exE conjE) (rule that, assumption+)
  have r: "fst (system_corr ex_mini ex_sff True True ex_jit) = Returned"
    by (simp add: st(2))
  have l: "lc (snd (system_corr ex_mini ex_sff True True ex_jit)) = Some (map (\<lambda>v. v / 2) (j_lc_new st))"
    by (simp add: st(2) ex_sff_def)
  show ?thesis
    using h r st(1) l by (intro conjI exI [of _ st]) simp_all
qed

end
